theory Spec2Isabelle
  imports Main
begin

section \<open>Sticky-notes blok adapter\<close>

text \<open>
  The adapter of the sticky-notes blok (\<open>getStickyNotesProps\<close>):
  \<^verbatim>\<open>
  export const getStickyNotesProps = (
    data: TStickyNotesRawData,
  ): TStickyNotesProps => ({
    variant: data.variant,
    items: data.items.map((item) => ({
      title: item.title,
      description: item.description,
      descriptionSize: item.descriptionSize,
      buttonText: item.buttonText,
      variant: item.variant,
      buttonLink: getUrl(item.link),
    })),
  });
  \<close>
  The raw record and the prop object are records with the fields the adapter reads and
  writes. Text fields and the option fields of the CMS (\<open>variant\<close>,
  \<open>descriptionSize\<close>) are strings; the type of a CMS link is declared outside the
  sources and stays a type parameter. \<open>getUrl\<close> is imported from the shared component
  library, so the adapter takes it as its first argument.
\<close>

record 'link TStickyNoteItemRawData =
  title :: string
  description :: string
  descriptionSize :: string
  buttonText :: string
  variant :: string
  link :: 'link

record 'link TStickyNotesRawData =
  variant :: string
  items :: "'link TStickyNoteItemRawData list"

record TStickyNoteItemProps =
  title :: string
  description :: string
  descriptionSize :: string
  buttonText :: string
  variant :: string
  buttonLink :: string

record TStickyNotesProps =
  variant :: string
  items :: "TStickyNoteItemProps list"

definition getStickyNotesProps ::
  "('link \<Rightarrow> string) \<Rightarrow> 'link TStickyNotesRawData \<Rightarrow> TStickyNotesProps" where
  "getStickyNotesProps getUrl d =
     \<lparr> TStickyNotesProps.variant = TStickyNotesRawData.variant d,
       TStickyNotesProps.items = map (\<lambda>item.
         \<lparr> TStickyNoteItemProps.title = TStickyNoteItemRawData.title item,
           TStickyNoteItemProps.description = TStickyNoteItemRawData.description item,
           TStickyNoteItemProps.descriptionSize = TStickyNoteItemRawData.descriptionSize item,
           TStickyNoteItemProps.buttonText = TStickyNoteItemRawData.buttonText item,
           TStickyNoteItemProps.variant = TStickyNoteItemRawData.variant item,
           TStickyNoteItemProps.buttonLink = getUrl (TStickyNoteItemRawData.link item) \<rparr>)
         (TStickyNotesRawData.items d) \<rparr>"

section \<open>Static generation hooks\<close>

text \<open>
  A rejected promise and a property read on \<open>undefined\<close> are the two ways the hooks
  fail. A rejection carries the reason the content API client gave.
\<close>

datatype error = Rejected string | TypeError

text \<open>
  The content API client (\<open>Api\<close>) is an external collaborator. Each of its calls
  is a fetch: it runs against the state of the outside world, leaves a new state, and
  either rejects or resolves to a response \<open>{ data }\<close>. \<open>getStaticPaths\<close> reads
  \<open>data\<close> through optional chaining, so \<open>data\<close> may be undefined.
\<close>

record ISlugParams =
  slug :: string

record 'a ApiResponse =
  data :: "'a option"

record 'e LinkEntries =
  items :: "'e list"

record 'e LinksQuery =
  Links :: "'e LinkEntries"

record 'pg PageItemQuery =
  PageItem :: 'pg

record 'ft FooterItemQuery =
  FooterItem :: 'ft

type_synonym ('w, 'a) fetch = "'w \<Rightarrow> (error + 'a ApiResponse) \<times> 'w"

record ('w, 'e, 'pg, 'ft) Api =
  getLinks :: "('w, 'e LinksQuery) fetch"
  getPageItem :: "ISlugParams \<Rightarrow> ('w, 'pg PageItemQuery) fetch"
  getFooterItem :: "('w, 'ft FooterItemQuery) fetch"

record ('d, 'f) TContainerProps =
  data :: 'd
  footer :: 'f
  preview :: bool

record 'p StaticPropsResult =
  props :: 'p

record 'p StaticPathsResult =
  paths :: "'p list"
  fallback :: bool

text \<open>
  The argument of \<open>getStaticProps\<close>. The framework supplies \<open>params\<close> for a
  dynamic route; \<open>preview\<close> is an optional field.
\<close>

record GetStaticPropsContext =
  params :: ISlugParams
  preview :: "bool option"

text \<open>
  \<^verbatim>\<open>
  export const getStaticPaths: GetStaticPaths = async () => {
    const { data } = await Api.getLinks();
    return {
      paths: getPaths(data?.Links.items),
      fallback: false,
    };
  };
  \<close>
  The path resolver \<open>getPaths\<close> is a service outside the sources: it is an argument,
  it receives the entries or \<open>undefined\<close>, and it may throw.
\<close>

definition getStaticPaths ::
  "('w, 'e, 'pg, 'ft) Api \<Rightarrow> ('e list option \<Rightarrow> error + 'p list) \<Rightarrow> 'w
    \<Rightarrow> (error + 'p StaticPathsResult) \<times> 'w" where
  "getStaticPaths api getPaths w =
     (case getLinks api w of
        (Inl e, w1) \<Rightarrow> (Inl e, w1)
      | (Inr res, w1) \<Rightarrow>
          (case getPaths (map_option (\<lambda>d. LinkEntries.items (Links d)) (ApiResponse.data res)) of
             Inl e \<Rightarrow> (Inl e, w1)
           | Inr ps \<Rightarrow> (Inr \<lparr> paths = ps, fallback = False \<rparr>, w1)))"

text \<open>
  \<^verbatim>\<open>
  export const getStaticProps: GetStaticProps<
    TContainerProps,
    ISlugParams
  > = async ({ params: { slug }, preview = false }) => {
    const { data } = await Api.getPageItem({ slug });
    const { data: footer } = await Api.getFooterItem();

    return {
      props: {
        data: data.PageItem,
        footer: footer.FooterItem,
        preview,
      },
    };
  };
  \<close>
  Both fetches are awaited before \<open>data.PageItem\<close> and \<open>footer.FooterItem\<close> are
  read; each of the two reads throws a \<open>TypeError\<close> when its \<open>data\<close> is undefined.
\<close>

definition getStaticProps ::
  "('w, 'e, 'pg, 'ft) Api \<Rightarrow> GetStaticPropsContext
    \<Rightarrow> 'w \<Rightarrow> (error + ('pg, 'ft) TContainerProps StaticPropsResult) \<times> 'w" where
  "getStaticProps api ctx w =
     (case getPageItem api \<lparr> slug = slug (params ctx) \<rparr> w of
        (Inl e, w1) \<Rightarrow> (Inl e, w1)
      | (Inr res, w1) \<Rightarrow>
          (case getFooterItem api w1 of
             (Inl e, w2) \<Rightarrow> (Inl e, w2)
           | (Inr fres, w2) \<Rightarrow>
               (case ApiResponse.data res of
                  None \<Rightarrow> (Inl TypeError, w2)
                | Some d \<Rightarrow>
                    (case ApiResponse.data fres of
                       None \<Rightarrow> (Inl TypeError, w2)
                     | Some f \<Rightarrow>
                         (Inr \<lparr> props =
                            \<lparr> TContainerProps.data = PageItem d,
                              footer = FooterItem f,
                              TContainerProps.preview =
                                (case GetStaticPropsContext.preview ctx of
                                   None \<Rightarrow> False
                                 | Some b \<Rightarrow> b) \<rparr> \<rparr>, w2)))))"

text \<open>
  The calls a hook makes on the client are observed by running it on a client that
  writes each call into a log kept beside the state of the world.
\<close>

datatype ApiCall = CallGetLinks | CallGetPageItem ISlugParams | CallGetFooterItem

definition logged ::
  "('w, 'e, 'pg, 'ft) Api \<Rightarrow> ('w \<times> ApiCall list, 'e, 'pg, 'ft) Api" where
  "logged api =
     \<lparr> getLinks = (\<lambda>(w, calls).
         case getLinks api w of (r, w') \<Rightarrow> (r, (w', calls @ [CallGetLinks]))),
       getPageItem = (\<lambda>q (w, calls).
         case getPageItem api q w of (r, w') \<Rightarrow> (r, (w', calls @ [CallGetPageItem q]))),
       getFooterItem = (\<lambda>(w, calls).
         case getFooterItem api w of (r, w') \<Rightarrow> (r, (w', calls @ [CallGetFooterItem]))) \<rparr>"

text \<open>
  Modelled from the spec: \<open>getPaths\<close> (the static path resolver of
  \<open>services/getPaths\<close>) is missing from the sources. The spec describes it as deriving
  the list of page slugs from the link data by "a direct mapping with a filter, O(n) over
  link entries". The filter \<open>keep\<close> and the mapping \<open>toPath\<close> are not described and
  stay arguments.
\<close>

definition getPaths :: "('e \<Rightarrow> bool) \<Rightarrow> ('e \<Rightarrow> 'p) \<Rightarrow> 'e list \<Rightarrow> 'p list" where
  "getPaths keep toPath entries = map toPath (filter keep entries)"

section \<open>Page container\<close>

text \<open>
  The blok union of \<open>rawBlok.ts\<close>. The raw records of the hero, board, teaser and
  feature-article bloks are declared in sibling modules outside the sources.
  \<^verbatim>\<open>
  export type TRawBlok =
    | THeroRawData
    | TBoardRawData
    | TTeaserRawData
    | TStickyNotesRawData
    | TFeatureArticleRawData;
  \<close>
\<close>

typedecl THeroRawData
typedecl TBoardRawData
typedecl TTeaserRawData
typedecl TFeatureArticleRawData

datatype 'link TRawBlok =
    Hero THeroRawData
  | Board TBoardRawData
  | Teaser TTeaserRawData
  | StickyNotes "'link TStickyNotesRawData"
  | FeatureArticle TFeatureArticleRawData

text \<open>
  What the container reads of a page item: \<open>data.content\<close> and, of the content, the
  title, the description and the content-type tag \<open>component\<close>. Either \<open>data\<close> or
  \<open>data.content\<close> may be null or undefined at run time.
\<close>

record TPageContent =
  title :: string
  description :: string
  component :: string

record TPageItem =
  content :: "TPageContent option"

text \<open>The member of \<open>DomainVariant\<close> the labs page uses.\<close>

datatype DomainVariant = Labs

text \<open>
  The element tree a render of the container returns. \<open>JsFalse\<close> is the value
  \<open>false\<close> that \<open>cond && <Page/>\<close> leaves among the children when the condition
  fails. The child of \<open>Page\<close> is a render function over bloks.
\<close>

datatype ('f, 'link) ReactNode =
    Layout 'f "('f, 'link) ReactNode list"
  | SEO string string DomainVariant
  | Page "TPageItem option" bool "'link TRawBlok \<Rightarrow> ('f, 'link) ReactNode"
  | BlokProvider "'link TRawBlok"
  | JsFalse

text \<open>
  \<^verbatim>\<open>
  const Container: FC<TContainerProps> = ({ data, footer, preview }) => (
    <Layout footer={footer}>
      <SEO
        title={data.content.title}
        description={data.content.description}
        variant={DomainVariant.Labs}
      />
      {isPageType(data?.content?.component) && (
        <Page data={data} preview={preview}>
          {(blok: TRawBlok) => <BlokProvider blok={blok} />}
        </Page>
      )}
    </Layout>
  );
  \<close>
  The props of \<open>SEO\<close> are evaluated first: \<open>data.content.title\<close> throws a
  \<open>TypeError\<close> when \<open>data\<close> or \<open>data.content\<close> is undefined. \<open>isPageType\<close> is a
  service outside the sources and is an argument; it receives the value of the optional
  chain \<open>data?.content?.component\<close>.
\<close>

definition Container ::
  "(string option \<Rightarrow> bool) \<Rightarrow> (TPageItem option, 'f) TContainerProps
    \<Rightarrow> error + ('f, 'link) ReactNode" where
  "Container isPageType p =
     (case TContainerProps.data p of
        None \<Rightarrow> Inl TypeError
      | Some d \<Rightarrow>
          (case content d of
             None \<Rightarrow> Inl TypeError
           | Some c \<Rightarrow>
               Inr (Layout (footer p)
                 [SEO (TPageContent.title c) (TPageContent.description c) Labs,
                  if isPageType
                       (Option.bind (TContainerProps.data p)
                          (\<lambda>d'. Option.bind (content d') (\<lambda>c'. Some (component c'))))
                  then Page (TContainerProps.data p) (TContainerProps.preview p)
                         (\<lambda>blok. BlokProvider blok)
                  else JsFalse])))"

section \<open>Example inputs\<close>

text \<open>
  Concrete inputs on which the theorems below are instantiated: a sticky-notes blok
  with two items, a content API client that counts its requests in the state of the
  world and answers each call with a given result, a context for the slug
  \<open>about\<close>, and the props of a page whose content carries a given content-type tag.
\<close>

definition exampleStickyNotes :: "string TStickyNotesRawData" where
  "exampleStickyNotes =
     \<lparr> TStickyNotesRawData.variant = ''grid'',
       TStickyNotesRawData.items =
         [\<lparr> TStickyNoteItemRawData.title = ''Blog'',
            TStickyNoteItemRawData.description = ''Read our posts'',
            TStickyNoteItemRawData.descriptionSize = ''small'',
            TStickyNoteItemRawData.buttonText = ''Go'',
            TStickyNoteItemRawData.variant = ''violet'',
            link = ''blog'' \<rparr>,
          \<lparr> TStickyNoteItemRawData.title = ''Team'',
            TStickyNoteItemRawData.description = ''Meet us'',
            TStickyNoteItemRawData.descriptionSize = ''big'',
            TStickyNoteItemRawData.buttonText = ''Open'',
            TStickyNoteItemRawData.variant = ''green'',
            link = ''team'' \<rparr>] \<rparr>"

definition exampleApi ::
  "(error + string LinksQuery ApiResponse) \<Rightarrow> (ISlugParams \<Rightarrow> error + string PageItemQuery ApiResponse)
    \<Rightarrow> (error + string FooterItemQuery ApiResponse) \<Rightarrow> (nat, string, string, string) Api" where
  "exampleApi links page foot =
     \<lparr> getLinks = (\<lambda>n. (links, Suc n)),
       getPageItem = (\<lambda>q n. (page q, Suc n)),
       getFooterItem = (\<lambda>n. (foot, Suc n)) \<rparr>"

definition exampleLinks :: "error + string LinksQuery ApiResponse" where
  "exampleLinks =
     Inr \<lparr> ApiResponse.data = Some \<lparr> Links = \<lparr> LinkEntries.items = [''home'', ''blog/'', ''about''] \<rparr> \<rparr> \<rparr>"

definition examplePage :: "ISlugParams \<Rightarrow> error + string PageItemQuery ApiResponse" where
  "examplePage q = Inr \<lparr> ApiResponse.data = Some \<lparr> PageItem = ''page:'' @ slug q \<rparr> \<rparr>"

definition exampleFooter :: "error + string FooterItemQuery ApiResponse" where
  "exampleFooter = Inr \<lparr> ApiResponse.data = Some \<lparr> FooterItem = ''footer'' \<rparr> \<rparr>"

definition exampleContext :: "bool option \<Rightarrow> GetStaticPropsContext" where
  "exampleContext pv = \<lparr> params = \<lparr> slug = ''about'' \<rparr>, GetStaticPropsContext.preview = pv \<rparr>"

definition examplePageProps :: "string \<Rightarrow> (TPageItem option, string) TContainerProps" where
  "examplePageProps tag =
     \<lparr> TContainerProps.data =
         Some \<lparr> content = Some \<lparr> TPageContent.title = ''About'',
                                 TPageContent.description = ''About the lab'',
                                 component = tag \<rparr> \<rparr>,
       footer = ''footer'',
       TContainerProps.preview = False \<rparr>"

definition rejectedPage :: "ISlugParams \<Rightarrow> error + string PageItemQuery ApiResponse" where
  "rejectedPage q = Inl (Rejected (''no page for '' @ slug q))"

definition exampleResolver :: "string list option \<Rightarrow> error + ISlugParams list" where
  "exampleResolver entries =
     (case entries of
        None \<Rightarrow> Inl TypeError
      | Some es \<Rightarrow> Inr (map (\<lambda>e. \<lparr> slug = e \<rparr>) es))"

definition exampleGetPaths :: "string list option \<Rightarrow> error + ISlugParams list" where
  "exampleGetPaths entries =
     (case entries of
        None \<Rightarrow> Inl TypeError
      | Some es \<Rightarrow> Inr (getPaths (\<lambda>e. e \<noteq> ''home'') (\<lambda>e. \<lparr> slug = e \<rparr>) es))"

definition exampleIsPageType :: "string option \<Rightarrow> bool" where
  "exampleIsPageType tag = (tag = Some ''page'')"

definition exampleNoData :: "(TPageItem option, string) TContainerProps" where
  "exampleNoData =
     \<lparr> TContainerProps.data = None, footer = ''footer'', TContainerProps.preview = False \<rparr>"

section \<open>The sticky-notes adapter maps fields item by item\<close>

text \<open>
  C1. For every raw sticky-notes record and every \<open>getUrl\<close>, the prop object carries
  the record's \<open>variant\<close>, and each of its items carries the title, description,
  descriptionSize, buttonText and variant of the raw item at the same position, with
  \<open>buttonLink\<close> the result of \<open>getUrl\<close> on that item's \<open>link\<close>. Whatever
  \<open>getUrl\<close> guarantees of every URL it returns (being absolute) therefore holds of
  every \<open>buttonLink\<close>.
\<close>

theorem getStickyNotesProps_fields:
  "TStickyNotesProps.variant (getStickyNotesProps getUrl d) = TStickyNotesRawData.variant d \<and>
   (\<forall>i < length (TStickyNotesRawData.items d).
      TStickyNoteItemProps.title (TStickyNotesProps.items (getStickyNotesProps getUrl d) ! i)
        = TStickyNoteItemRawData.title (TStickyNotesRawData.items d ! i) \<and>
      TStickyNoteItemProps.description (TStickyNotesProps.items (getStickyNotesProps getUrl d) ! i)
        = TStickyNoteItemRawData.description (TStickyNotesRawData.items d ! i) \<and>
      TStickyNoteItemProps.descriptionSize (TStickyNotesProps.items (getStickyNotesProps getUrl d) ! i)
        = TStickyNoteItemRawData.descriptionSize (TStickyNotesRawData.items d ! i) \<and>
      TStickyNoteItemProps.buttonText (TStickyNotesProps.items (getStickyNotesProps getUrl d) ! i)
        = TStickyNoteItemRawData.buttonText (TStickyNotesRawData.items d ! i) \<and>
      TStickyNoteItemProps.variant (TStickyNotesProps.items (getStickyNotesProps getUrl d) ! i)
        = TStickyNoteItemRawData.variant (TStickyNotesRawData.items d ! i) \<and>
      buttonLink (TStickyNotesProps.items (getStickyNotesProps getUrl d) ! i)
        = getUrl (link (TStickyNotesRawData.items d ! i))) \<and>
   ((\<forall>l. absolute (getUrl l)) \<longrightarrow>
      (\<forall>p \<in> set (TStickyNotesProps.items (getStickyNotesProps getUrl d)). absolute (buttonLink p)))"
  by (auto simp: getStickyNotesProps_def)

theorem getStickyNotesProps_fields_witness:
  "TStickyNotesProps.variant (getStickyNotesProps ((@) ''https://labs.quansight.org/'') exampleStickyNotes)
     = ''grid'' \<and>
   buttonLink (TStickyNotesProps.items
      (getStickyNotesProps ((@) ''https://labs.quansight.org/'') exampleStickyNotes) ! Suc 0)
     = ''https://labs.quansight.org/team'' \<and>
   take 8 (buttonLink (TStickyNotesProps.items
      (getStickyNotesProps ((@) ''https://labs.quansight.org/'') exampleStickyNotes) ! 0))
     = ''https://''"
proof -
  have len: "Suc 0 < length (TStickyNotesRawData.items exampleStickyNotes)"
    by (simp add: exampleStickyNotes_def)
  have ab: "\<forall>l. take 8 (''https://labs.quansight.org/'' @ l) = ''https://''"
    by simp
  note t = getStickyNotesProps_fields [of "(@) ''https://labs.quansight.org/''" exampleStickyNotes
      "\<lambda>u. take 8 u = ''https://''"]
  have v: "TStickyNotesProps.variant
      (getStickyNotesProps ((@) ''https://labs.quansight.org/'') exampleStickyNotes) = ''grid''"
    using t by (simp add: exampleStickyNotes_def)
  have l1: "buttonLink (TStickyNotesProps.items
      (getStickyNotesProps ((@) ''https://labs.quansight.org/'') exampleStickyNotes) ! Suc 0)
     = ''https://labs.quansight.org/team''"
    using t len by (simp add: exampleStickyNotes_def)
  have "\<forall>p \<in> set (TStickyNotesProps.items
      (getStickyNotesProps ((@) ''https://labs.quansight.org/'') exampleStickyNotes)).
        take 8 (buttonLink p) = ''https://''"
    using t ab by blast
  moreover have "TStickyNotesProps.items
      (getStickyNotesProps ((@) ''https://labs.quansight.org/'') exampleStickyNotes) ! 0
      \<in> set (TStickyNotesProps.items
      (getStickyNotesProps ((@) ''https://labs.quansight.org/'') exampleStickyNotes))"
    by (simp add: getStickyNotesProps_def exampleStickyNotes_def)
  ultimately show ?thesis using v l1 by blast
qed

text \<open>
  C2. For every raw sticky-notes record, the items of the prop object are as many as
  the raw items, and the item at each position is built from the raw item at that
  position: the order of the items is kept.
\<close>

theorem getStickyNotesProps_items_order:
  "length (TStickyNotesProps.items (getStickyNotesProps getUrl d))
     = length (TStickyNotesRawData.items d) \<and>
   (\<forall>i < length (TStickyNotesRawData.items d).
      TStickyNotesProps.items (getStickyNotesProps getUrl d) ! i =
        \<lparr> TStickyNoteItemProps.title = TStickyNoteItemRawData.title (TStickyNotesRawData.items d ! i),
          TStickyNoteItemProps.description =
            TStickyNoteItemRawData.description (TStickyNotesRawData.items d ! i),
          TStickyNoteItemProps.descriptionSize =
            TStickyNoteItemRawData.descriptionSize (TStickyNotesRawData.items d ! i),
          TStickyNoteItemProps.buttonText =
            TStickyNoteItemRawData.buttonText (TStickyNotesRawData.items d ! i),
          TStickyNoteItemProps.variant =
            TStickyNoteItemRawData.variant (TStickyNotesRawData.items d ! i),
          buttonLink = getUrl (link (TStickyNotesRawData.items d ! i)) \<rparr>)"
  by (simp add: getStickyNotesProps_def)

theorem getStickyNotesProps_items_order_witness:
  "length (TStickyNotesProps.items (getStickyNotesProps rev exampleStickyNotes)) = 2 \<and>
   TStickyNotesProps.items (getStickyNotesProps rev exampleStickyNotes) ! Suc 0 =
     \<lparr> TStickyNoteItemProps.title = ''Team'',
       TStickyNoteItemProps.description = ''Meet us'',
       TStickyNoteItemProps.descriptionSize = ''big'',
       TStickyNoteItemProps.buttonText = ''Open'',
       TStickyNoteItemProps.variant = ''green'',
       buttonLink = ''maet'' \<rparr>"
proof -
  have len: "Suc 0 < length (TStickyNotesRawData.items exampleStickyNotes)"
    by (simp add: exampleStickyNotes_def)
  show ?thesis
    using getStickyNotesProps_items_order [of rev exampleStickyNotes] len
    by (simp add: exampleStickyNotes_def)
qed

section \<open>The logging client\<close>

lemma logged_getLinks:
  "getLinks (logged api) (w, calls) =
     (fst (getLinks api w), (snd (getLinks api w), calls @ [CallGetLinks]))"
  by (simp add: logged_def split: prod.split)

lemma logged_getPageItem:
  "getPageItem (logged api) q (w, calls) =
     (fst (getPageItem api q w), (snd (getPageItem api q w), calls @ [CallGetPageItem q]))"
  by (simp add: logged_def split: prod.split)

lemma logged_getFooterItem:
  "getFooterItem (logged api) (w, calls) =
     (fst (getFooterItem api w), (snd (getFooterItem api w), calls @ [CallGetFooterItem]))"
  by (simp add: logged_def split: prod.split)

section \<open>Failures of the content API reach the caller unchanged\<close>

text \<open>
  C3. When \<open>getLinks\<close> rejects, \<open>getStaticPaths\<close> fails with the same error;
  when \<open>getPageItem\<close> rejects, or resolves and \<open>getFooterItem\<close> rejects,
  \<open>getStaticProps\<close> fails with the same error. The world is left as the rejecting
  call left it, and the log of the client holds the calls up to the rejecting one, each
  once: nothing is retried, caught or replaced by a fallback value.
\<close>

theorem fetch_failure_propagates:
  "(getLinks api w = (Inl e, w') \<longrightarrow>
      getStaticPaths api resolver w = (Inl e, w') \<and>
      getStaticPaths (logged api) resolver (w, []) = (Inl e, (w', [CallGetLinks]))) \<and>
   (getPageItem api \<lparr> slug = slug (params ctx) \<rparr> w = (Inl e, w') \<longrightarrow>
      getStaticProps api ctx w = (Inl e, w') \<and>
      getStaticProps (logged api) ctx (w, []) =
        (Inl e, (w', [CallGetPageItem \<lparr> slug = slug (params ctx) \<rparr>]))) \<and>
   (getPageItem api \<lparr> slug = slug (params ctx) \<rparr> w = (Inr res, wa) \<and>
    getFooterItem api wa = (Inl e, w') \<longrightarrow>
      getStaticProps api ctx w = (Inl e, w') \<and>
      getStaticProps (logged api) ctx (w, []) =
        (Inl e, (w', [CallGetPageItem \<lparr> slug = slug (params ctx) \<rparr>, CallGetFooterItem])))"
  by (simp add: getStaticPaths_def getStaticProps_def logged_getLinks logged_getPageItem
      logged_getFooterItem)

theorem fetch_failure_propagates_witness:
  "getStaticPaths (exampleApi (Inl (Rejected ''503'')) examplePage exampleFooter) exampleResolver 0
     = (Inl (Rejected ''503''), Suc 0) \<and>
   getStaticProps (exampleApi exampleLinks rejectedPage exampleFooter) (exampleContext None) 0
     = (Inl (Rejected ''no page for about''), Suc 0) \<and>
   getStaticProps (exampleApi exampleLinks examplePage (Inl (Rejected ''reset'')))
       (exampleContext None) 0
     = (Inl (Rejected ''reset''), Suc (Suc 0))"
proof -
  have a: "getLinks (exampleApi (Inl (Rejected ''503'')) examplePage exampleFooter) 0
      = (Inl (Rejected ''503''), Suc 0)"
    by (simp add: exampleApi_def)
  have b: "getPageItem (exampleApi exampleLinks rejectedPage exampleFooter)
        \<lparr> slug = slug (params (exampleContext None)) \<rparr> 0
      = (Inl (Rejected ''no page for about''), Suc 0)"
    by (simp add: exampleApi_def rejectedPage_def exampleContext_def)
  have c: "getPageItem (exampleApi exampleLinks examplePage (Inl (Rejected ''reset'')))
        \<lparr> slug = slug (params (exampleContext None)) \<rparr> 0
      = (Inr \<lparr> ApiResponse.data = Some \<lparr> PageItem = ''page:about'' \<rparr> \<rparr>, Suc 0) \<and>
    getFooterItem (exampleApi exampleLinks examplePage (Inl (Rejected ''reset''))) (Suc 0)
      = (Inl (Rejected ''reset''), Suc (Suc 0))"
    by (simp add: exampleApi_def examplePage_def exampleContext_def)
  from a b c show ?thesis
    using fetch_failure_propagates
            [where api = "exampleApi (Inl (Rejected ''503'')) examplePage exampleFooter"
               and w = 0 and e = "Rejected ''503''" and w' = "Suc 0"
               and resolver = exampleResolver]
          fetch_failure_propagates
            [where api = "exampleApi exampleLinks rejectedPage exampleFooter"
               and w = 0 and e = "Rejected ''no page for about''" and w' = "Suc 0"
               and ctx = "exampleContext None"]
          fetch_failure_propagates
            [where api = "exampleApi exampleLinks examplePage (Inl (Rejected ''reset''))"
               and w = 0 and e = "Rejected ''reset''" and w' = "Suc (Suc 0)"
               and ctx = "exampleContext None" and wa = "Suc 0"
               and res = "\<lparr> ApiResponse.data = Some \<lparr> PageItem = ''page:about'' \<rparr> \<rparr>"]
    by blast
qed

section \<open>The props of a page are the fetched records\<close>

text \<open>
  C4. When \<open>getPageItem({slug})\<close> resolves with a \<open>data\<close> and, after it,
  \<open>getFooterItem()\<close> resolves with a \<open>data\<close>, \<open>getStaticProps\<close> returns
  \<open>{props: {data, footer, preview}}\<close> with \<open>data\<close> the fetched \<open>PageItem\<close>,
  \<open>footer\<close> the fetched \<open>FooterItem\<close>, both as they were fetched, and
  \<open>preview\<close> the preview flag of the context (\<open>false\<close> when it is absent).
\<close>

theorem getStaticProps_pass_through:
  assumes "getPageItem api \<lparr> slug = slug (params ctx) \<rparr> w = (Inr res, wa)"
    and "ApiResponse.data res = Some pq"
    and "getFooterItem api wa = (Inr fres, wb)"
    and "ApiResponse.data fres = Some fq"
  shows "getStaticProps api ctx w =
    (Inr \<lparr> props =
       \<lparr> TContainerProps.data = PageItem pq,
         footer = FooterItem fq,
         TContainerProps.preview =
           (case GetStaticPropsContext.preview ctx of None \<Rightarrow> False | Some b \<Rightarrow> b) \<rparr> \<rparr>, wb)"
  using assms by (simp add: getStaticProps_def)

theorem getStaticProps_pass_through_witness:
  "getStaticProps (exampleApi exampleLinks examplePage exampleFooter) (exampleContext (Some True)) 0
     = (Inr \<lparr> props = \<lparr> TContainerProps.data = ''page:about'', footer = ''footer'',
                          TContainerProps.preview = True \<rparr> \<rparr>, Suc (Suc 0))"
proof -
  have a: "getPageItem (exampleApi exampleLinks examplePage exampleFooter)
        \<lparr> slug = slug (params (exampleContext (Some True))) \<rparr> 0
      = (Inr \<lparr> ApiResponse.data = Some \<lparr> PageItem = ''page:about'' \<rparr> \<rparr>, Suc 0)"
    by (simp add: exampleApi_def examplePage_def exampleContext_def)
  have b: "getFooterItem (exampleApi exampleLinks examplePage exampleFooter) (Suc 0)
      = (Inr \<lparr> ApiResponse.data = Some \<lparr> FooterItem = ''footer'' \<rparr> \<rparr>, Suc (Suc 0))"
    by (simp add: exampleApi_def exampleFooter_def)
  show ?thesis
    using getStaticProps_pass_through [OF a _ b, of "\<lparr> PageItem = ''page:about'' \<rparr>"
        "\<lparr> FooterItem = ''footer'' \<rparr>"]
    by (simp add: exampleContext_def)
qed

section \<open>The page container\<close>

text \<open>
  C5, as the code has it. For every input whose \<open>data\<close> and \<open>data.content\<close> are
  defined, the container returns the layout with the footer, holding the SEO metadata
  (title and description of \<open>data.content\<close>, variant Labs) and, when
  \<open>isPageType\<close> accepts the content-type tag, the page with \<open>data\<close> and
  \<open>preview\<close> whose render function hands each blok of the union \<open>TRawBlok\<close> to
  \<open>BlokProvider\<close>; when \<open>isPageType\<close> refuses the tag, \<open>false\<close> stands in the
  place of the page and no blok is rendered.
\<close>

theorem Container_composition:
  assumes "TContainerProps.data p = Some d" and "content d = Some c"
  shows "Container isPageType p =
    Inr (Layout (footer p)
      [SEO (TPageContent.title c) (TPageContent.description c) Labs,
       if isPageType (Some (component c))
       then Page (Some d) (TContainerProps.preview p) BlokProvider
       else JsFalse])"
  using assms by (simp add: Container_def)

theorem Container_composition_witness:
  "(Container exampleIsPageType (examplePageProps ''page'') :: error + (string, string) ReactNode) =
     Inr (Layout ''footer''
       [SEO ''About'' ''About the lab'' Labs,
        Page (Some \<lparr> content = Some \<lparr> TPageContent.title = ''About'',
                                         TPageContent.description = ''About the lab'',
                                         component = ''page'' \<rparr> \<rparr>)
          False BlokProvider])"
proof -
  have a: "TContainerProps.data (examplePageProps ''page'') =
      Some \<lparr> content = Some \<lparr> TPageContent.title = ''About'',
                               TPageContent.description = ''About the lab'',
                               component = ''page'' \<rparr> \<rparr>"
    by (simp add: examplePageProps_def)
  have b: "content \<lparr> content = Some \<lparr> TPageContent.title = ''About'',
                               TPageContent.description = ''About the lab'',
                               component = ''page'' \<rparr> \<rparr> =
      Some \<lparr> TPageContent.title = ''About'', TPageContent.description = ''About the lab'',
             component = ''page'' \<rparr>"
    by simp
  show ?thesis
    using Container_composition [OF a b, of exampleIsPageType]
    by (simp add: examplePageProps_def exampleIsPageType_def)
qed

text \<open>
  The claim as stated, for every input, fails twice: on a content-type tag that
  \<open>isPageType\<close> refuses the container renders no page and no \<open>BlokProvider\<close>, and
  on props without \<open>data\<close> it renders nothing and throws.
\<close>

theorem Container_composition_counterexample:
  "(Container exampleIsPageType (examplePageProps ''post'') :: error + (string, string) ReactNode) =
     Inr (Layout ''footer'' [SEO ''About'' ''About the lab'' Labs, JsFalse]) \<and>
   (Container exampleIsPageType exampleNoData :: error + (string, string) ReactNode) =
     Inl TypeError"
  by (simp add: Container_def examplePageProps_def exampleIsPageType_def exampleNoData_def)

text \<open>
  C8. The container returns an element tree exactly when \<open>data\<close> and
  \<open>data.content\<close> are defined. When either is null or undefined it throws a
  \<open>TypeError\<close> whatever \<open>isPageType\<close> is: the reads of \<open>data.content.title\<close> and
  \<open>data.content.description\<close> come before the guarded call, and the optional chaining
  of the guard does not protect them.
\<close>

theorem Container_defined_iff:
  "((\<exists>node. Container isPageType p = Inr node) \<longleftrightarrow>
      (\<exists>d c. TContainerProps.data p = Some d \<and> content d = Some c)) \<and>
   (\<not> (\<exists>d c. TContainerProps.data p = Some d \<and> content d = Some c) \<longrightarrow>
      (\<forall>g. Container g p = Inl TypeError))"
  by (auto simp: Container_def split: option.splits)

theorem Container_defined_iff_witness:
  "(Container exampleIsPageType exampleNoData :: error + (string, string) ReactNode) = Inl TypeError \<and>
   (Container exampleIsPageType
      \<lparr> TContainerProps.data = Some \<lparr> content = None \<rparr>, footer = ''footer'',
        TContainerProps.preview = True \<rparr> :: error + (string, string) ReactNode) = Inl TypeError \<and>
   (\<exists>node :: (string, string) ReactNode.
      Container exampleIsPageType (examplePageProps ''page'') = Inr node)"
proof -
  have a: "\<not> (\<exists>d c. TContainerProps.data exampleNoData = Some d \<and> content d = Some c)"
    by (simp add: exampleNoData_def)
  have b: "\<not> (\<exists>d c. TContainerProps.data
      \<lparr> TContainerProps.data = Some \<lparr> content = None \<rparr>, footer = ''footer'',
        TContainerProps.preview = True \<rparr> = Some d \<and> content d = Some c)"
    by auto
  have c: "\<exists>d c. TContainerProps.data (examplePageProps ''page'') = Some d \<and> content d = Some c"
    by (simp add: examplePageProps_def)
  from a b c show ?thesis
    using Container_defined_iff [of exampleIsPageType exampleNoData]
          Container_defined_iff [of exampleIsPageType
            "\<lparr> TContainerProps.data = Some \<lparr> content = None \<rparr>, footer = ''footer'',
               TContainerProps.preview = True \<rparr>"]
          Container_defined_iff [of exampleIsPageType "examplePageProps ''page''"]
    by blast
qed

section \<open>The static paths\<close>

text \<open>
  C6. When \<open>getLinks\<close> resolves with link entries, the path list \<open>getStaticPaths\<close>
  returns is what the path resolver makes of \<open>data?.Links.items\<close>; with the resolver
  the spec describes, a mapping over a filter of the entries, every path comes from one
  link entry, in the order of the entries, and there are at most as many paths as
  entries.
\<close>

theorem getStaticPaths_paths_from_links:
  assumes "getLinks api w = (Inr res, wa)"
    and "ApiResponse.data res = Some d"
    and "resolver (Some (LinkEntries.items (Links d))) =
           Inr (getPaths keep toPath (LinkEntries.items (Links d)))"
  shows "\<exists>r. getStaticPaths api resolver w = (Inr r, wa) \<and>
           paths r = map toPath (filter keep (LinkEntries.items (Links d))) \<and>
           length (paths r) \<le> length (LinkEntries.items (Links d))"
  using assms by (simp add: getStaticPaths_def getPaths_def)

theorem getStaticPaths_paths_from_links_witness:
  "\<exists>r. getStaticPaths (exampleApi exampleLinks examplePage exampleFooter) exampleGetPaths 0
          = (Inr r, Suc 0) \<and>
        paths r = [\<lparr> slug = ''blog/'' \<rparr>, \<lparr> slug = ''about'' \<rparr>]"
proof -
  have a: "getLinks (exampleApi exampleLinks examplePage exampleFooter) 0 =
      (Inr \<lparr> ApiResponse.data =
          Some \<lparr> Links = \<lparr> LinkEntries.items = [''home'', ''blog/'', ''about''] \<rparr> \<rparr> \<rparr>, Suc 0)"
    by (simp add: exampleApi_def exampleLinks_def)
  have b: "ApiResponse.data
      \<lparr> ApiResponse.data =
          Some \<lparr> Links = \<lparr> LinkEntries.items = [''home'', ''blog/'', ''about''] \<rparr> \<rparr> \<rparr> =
      Some \<lparr> Links = \<lparr> LinkEntries.items = [''home'', ''blog/'', ''about''] \<rparr> \<rparr>"
    by simp
  have c: "exampleGetPaths (Some (LinkEntries.items
        (Links \<lparr> Links = \<lparr> LinkEntries.items = [''home'', ''blog/'', ''about''] \<rparr> \<rparr>))) =
      Inr (getPaths (\<lambda>e. e \<noteq> ''home'') (\<lambda>e. \<lparr> slug = e \<rparr>) (LinkEntries.items
        (Links \<lparr> Links = \<lparr> LinkEntries.items = [''home'', ''blog/'', ''about''] \<rparr> \<rparr>)))"
    by (simp add: exampleGetPaths_def)
  show ?thesis
    using getStaticPaths_paths_from_links
            [where api = "exampleApi exampleLinks examplePage exampleFooter" and w = 0
               and wa = "Suc 0" and resolver = exampleGetPaths
               and keep = "\<lambda>e. e \<noteq> ''home''" and toPath = "\<lambda>e. \<lparr> slug = e \<rparr>"
               and d = "\<lparr> Links = \<lparr> LinkEntries.items = [''home'', ''blog/'', ''about''] \<rparr> \<rparr>"
               and res = "\<lparr> ApiResponse.data =
                 Some \<lparr> Links = \<lparr> LinkEntries.items = [''home'', ''blog/'', ''about''] \<rparr> \<rparr> \<rparr>"]
          a b c
    by auto
qed

text \<open>
  C9. Every result \<open>getStaticPaths\<close> returns has \<open>fallback\<close> false, whatever the
  link data and the path resolver are: the framework is told to generate the listed
  paths only.
\<close>

theorem getStaticPaths_fallback_false:
  assumes "getStaticPaths api resolver w = (Inr r, w')"
  shows "fallback r = False"
  using assms
  by (auto simp: getStaticPaths_def split: prod.splits sum.splits)

theorem getStaticPaths_fallback_false_witness:
  "\<exists>r. getStaticPaths (exampleApi exampleLinks examplePage exampleFooter) exampleResolver 0
          = (Inr r, Suc 0) \<and>
        paths r = [\<lparr> slug = ''home'' \<rparr>, \<lparr> slug = ''blog/'' \<rparr>, \<lparr> slug = ''about'' \<rparr>] \<and>
        fallback r = False"
proof -
  have a: "getStaticPaths (exampleApi exampleLinks examplePage exampleFooter) exampleResolver 0
     = (Inr \<lparr> paths = [\<lparr> slug = ''home'' \<rparr>, \<lparr> slug = ''blog/'' \<rparr>, \<lparr> slug = ''about'' \<rparr>],
              fallback = False \<rparr>, Suc 0)"
    by (simp add: getStaticPaths_def exampleApi_def exampleLinks_def exampleResolver_def)
  from getStaticPaths_fallback_false [OF a] a show ?thesis
    by simp
qed

section \<open>The preview flag\<close>

text \<open>
  C10. Whenever \<open>getStaticProps\<close> returns props: if the context carries no
  \<open>preview\<close> field the props have \<open>preview\<close> false, and if it carries a value the
  props have that value.
\<close>

theorem getStaticProps_preview_default:
  assumes "getStaticProps api ctx w = (Inr r, w')"
  shows "(GetStaticPropsContext.preview ctx = None \<longrightarrow> TContainerProps.preview (props r) = False) \<and>
         (\<forall>b. GetStaticPropsContext.preview ctx = Some b \<longrightarrow> TContainerProps.preview (props r) = b)"
  using assms
  by (auto simp: getStaticProps_def split: prod.splits sum.splits option.splits)

theorem getStaticProps_preview_default_witness:
  "(\<exists>r w'. getStaticProps (exampleApi exampleLinks examplePage exampleFooter) (exampleContext None) 0
            = (Inr r, w') \<and> TContainerProps.preview (props r) = False) \<and>
   (\<exists>r w'. getStaticProps (exampleApi exampleLinks examplePage exampleFooter)
              (exampleContext (Some True)) 0
            = (Inr r, w') \<and> TContainerProps.preview (props r) = True)"
proof -
  have a: "\<exists>r w'. getStaticProps (exampleApi exampleLinks examplePage exampleFooter)
      (exampleContext None) 0 = (Inr r, w')"
    by (simp add: getStaticProps_def exampleApi_def examplePage_def exampleFooter_def)
  have b: "\<exists>r w'. getStaticProps (exampleApi exampleLinks examplePage exampleFooter)
      (exampleContext (Some True)) 0 = (Inr r, w')"
    by (simp add: getStaticProps_def exampleApi_def examplePage_def exampleFooter_def)
  have c: "GetStaticPropsContext.preview (exampleContext None) = None"
    "GetStaticPropsContext.preview (exampleContext (Some True)) = Some True"
    by (simp_all add: exampleContext_def)
  from a b c show ?thesis
    using getStaticProps_preview_default
            [where api = "exampleApi exampleLinks examplePage exampleFooter"
               and ctx = "exampleContext None" and w = 0]
          getStaticProps_preview_default
            [where api = "exampleApi exampleLinks examplePage exampleFooter"
               and ctx = "exampleContext (Some True)" and w = 0]
    by metis
qed

section \<open>The order of the two fetches\<close>

text \<open>
  C7, as the code has it. On every invocation \<open>getStaticProps\<close> calls
  \<open>getPageItem({slug})\<close> first and once. When that call rejects,
  \<open>getFooterItem()\<close> is not called at all; when it resolves, \<open>getFooterItem()\<close> is
  called once, after it, on the very state of the world the page fetch left: nothing is
  read or written between the two. The logging client returns what the plain client
  returns.
\<close>

theorem getStaticProps_call_sequence:
  "fst (getStaticProps (logged api) ctx (w, calls)) = fst (getStaticProps api ctx w) \<and>
   snd (getStaticProps (logged api) ctx (w, calls)) =
     (case getPageItem api \<lparr> slug = slug (params ctx) \<rparr> w of
        (Inl e, wa) \<Rightarrow> (wa, calls @ [CallGetPageItem \<lparr> slug = slug (params ctx) \<rparr>])
      | (Inr res, wa) \<Rightarrow>
          (snd (getFooterItem api wa),
           calls @ [CallGetPageItem \<lparr> slug = slug (params ctx) \<rparr>, CallGetFooterItem]))"
  by (simp add: getStaticProps_def logged_getPageItem logged_getFooterItem
      split: prod.splits sum.splits option.splits)

theorem getStaticProps_call_sequence_witness:
  "snd (getStaticProps (logged (exampleApi exampleLinks examplePage exampleFooter))
          (exampleContext None) (0, []))
     = (Suc (Suc 0), [CallGetPageItem \<lparr> slug = ''about'' \<rparr>, CallGetFooterItem])"
  using getStaticProps_call_sequence
          [of "exampleApi exampleLinks examplePage exampleFooter" "exampleContext None" 0 "[]"]
  by (simp add: exampleApi_def examplePage_def exampleContext_def)

text \<open>
  The claim as stated, each fetch made exactly once on every invocation, fails when the
  page fetch rejects: the footer fetch is never made.
\<close>

theorem getStaticProps_call_sequence_counterexample:
  "snd (getStaticProps (logged (exampleApi exampleLinks rejectedPage exampleFooter))
          (exampleContext None) (0, []))
     = (Suc 0, [CallGetPageItem \<lparr> slug = ''about'' \<rparr>]) \<and>
   CallGetFooterItem \<notin> set (snd (snd
     (getStaticProps (logged (exampleApi exampleLinks rejectedPage exampleFooter))
        (exampleContext None) (0, []))))"
  by (simp add: getStaticProps_def logged_getPageItem exampleApi_def rejectedPage_def
      exampleContext_def)

end
